theory Spec2Isabelle
  imports Main "HOL-Library.Sublist"
begin

section \<open>Go values shared by both programs\<close>

text \<open>
  A Go panic carries a value. The deferred function of \<open>run\<close> tells values that
  implement \<open>error\<close> (runtime errors among them) from all others, and reads the
  message of the former, so a panic value is either an error, given by its message
  \<open>err.Error()\<close>, or another value, given by its type (\<open>%T\<close>) and its text (\<open>%v\<close>).
\<close>

datatype panic_value = PanicError string | PanicOther string string

section \<open>pkg/tftp: the interactive client\<close>

subsection \<open>Errors and transfer modes\<close>

text \<open>
  \<open>ErrInvalidTransferMode\<close> and \<open>errSizeNoMatch\<close> are the two error variables of the
  package; every other error comes from a collaborator (the TFTP client, the file
  system) and is kept by its message.
\<close>

datatype tftp_error = ErrInvalidTransferMode | errSizeNoMatch | CollaboratorError string

text \<open>
  \<open>tftp.TransferMode\<close> is a string type of the library \<open>pack.ag/tftp\<close>, with the
  constants \<open>ModeNetASCII = "netascii"\<close> and \<open>ModeOctet = "octet"\<close>.
\<close>

type_synonym TransferMode = string

definition ModeNetASCII :: TransferMode where
  "ModeNetASCII = ''netascii''"

definition ModeOctet :: TransferMode where
  "ModeOctet = ''octet''"

text \<open>
  \<open>validateMode\<close>: \<open>ret\<close> starts as the zero value (the empty string), which is what the
  default branch returns beside the error.
\<close>

definition validateMode :: "string \<Rightarrow> TransferMode \<times> tftp_error option" where
  "validateMode mode =
     (if mode = ''ascii'' then (ModeNetASCII, None)
      else if mode = ''binary'' then (ModeOctet, None)
      else ('''', Some ErrInvalidTransferMode))"

subsection \<open>executeGet\<close>

datatype 'a outcome = Returned 'a | Panicked panic_value

record GetCmd =
  remotefiles :: "string list"
  localfile :: string

definition constructURL :: "string \<Rightarrow> string \<Rightarrow> string \<Rightarrow> string \<Rightarrow> string" where
  "constructURL host port dir file =
     ''tftp://'' @ host @ '':'' @ port @ ''/'' @
     (if dir \<noteq> '''' then dir @ ''/'' else '''') @ file"

text \<open>
  The collaborators of \<open>executeGet\<close>: the client's \<open>Get\<close>, \<open>os.OpenFile\<close> (always
  called with \<open>O_CREATE|O_WRONLY\<close> and mode \<open>0o666\<close>), the response's \<open>Size\<close> and
  \<open>Read\<close>, the file's \<open>Write\<close> and \<open>Close\<close>. Each acts on the outside world \<open>'w\<close>
  (network and file system) and returns the changed world. \<open>'r\<close> is the type of
  responses, \<open>'h\<close> the type of open files. \<open>Read\<close> gets the length of the buffer it is
  handed and returns the count read and the buffer's contents after the call.
  \<open>maxAlloc\<close> is the constant of the Go runtime of that name, the largest size it
  allocates on the platform (\<open>2^48\<close> bytes on linux/amd64): \<open>make([]byte, n)\<close> panics
  with "makeslice: len out of range" when \<open>n < 0\<close> and when \<open>n > maxAlloc\<close>. Memory
  within that limit is taken to be there.
\<close>

record ('w, 'r, 'h) collaborators =
  client_Get :: "string \<Rightarrow> 'w \<Rightarrow> (tftp_error + 'r) \<times> 'w"
  os_OpenFile :: "string \<Rightarrow> 'w \<Rightarrow> (tftp_error + 'h) \<times> 'w"
  resp_Size :: "'r \<Rightarrow> 'w \<Rightarrow> (tftp_error + int) \<times> 'w"
  resp_Read :: "'r \<Rightarrow> nat \<Rightarrow> 'w \<Rightarrow> (tftp_error + int \<times> string) \<times> 'w"
  file_Write :: "'h \<Rightarrow> string \<Rightarrow> 'w \<Rightarrow> (tftp_error + int) \<times> 'w"
  file_Close :: "'h \<Rightarrow> 'w \<Rightarrow> 'w"
  maxAlloc :: int

text \<open>The switch on \<open>len(files)\<close> that fills the \<open>GetCmd\<close>.\<close>

definition get_cmd :: "string list \<Rightarrow> GetCmd" where
  "get_cmd files =
     (case files of
        [f] \<Rightarrow> \<lparr>remotefiles = [f], localfile = ''''\<rparr>
      | [f, l] \<Rightarrow> \<lparr>remotefiles = [f], localfile = l\<rparr>
      | _ \<Rightarrow> \<lparr>remotefiles = files, localfile = ''''\<rparr>)"

text \<open>
  The second half of one iteration, from \<open>resp.Size()\<close> on: \<open>None\<close> when the iteration
  ends without a return, so that the loop goes on. \<open>make([]byte, datalen)\<close> panics on a
  negative length and on a length beyond \<open>maxAlloc\<close>.
\<close>

definition copy_data ::
  "('w, 'r, 'h) collaborators \<Rightarrow> 'r \<Rightarrow> 'h \<Rightarrow> 'w \<Rightarrow> tftp_error option outcome option \<times> 'w" where
  "copy_data io resp lf w =
     (case resp_Size io resp w of
        (Inl err, w1) \<Rightarrow> (Some (Returned (Some err)), w1)
      | (Inr datalen, w1) \<Rightarrow>
          if datalen < 0 \<or> maxAlloc io < datalen
          then (Some (Panicked (PanicError ''runtime error: makeslice: len out of range'')), w1)
          else (case resp_Read io resp (nat datalen) w1 of
                  (Inl err, w2) \<Rightarrow> (Some (Returned (Some err)), w2)
                | (Inr (nR, data), w2) \<Rightarrow>
                    (case file_Write io lf data w2 of
                       (Inl err, w3) \<Rightarrow> (Some (Returned (Some err)), w3)
                     | (Inr nW, w3) \<Rightarrow>
                         if nR \<noteq> nW then (Some (Returned (Some errSizeNoMatch)), w3)
                         else (None, w3))))"

text \<open>
  One iteration of the loop over \<open>ret.remotefiles\<close>. The result holds the return of
  the function if the iteration returns, the files whose \<open>Close\<close> the iteration has
  deferred, and the world. The file opened under the remote name is the one whose
  \<open>Close\<close> is deferred; when \<open>ret.localfile\<close> is opened, it replaces \<open>localfile\<close> for
  the write only.
\<close>

definition get_file ::
  "('w, 'r, 'h) collaborators \<Rightarrow> string \<Rightarrow> string \<Rightarrow> GetCmd \<Rightarrow> string \<Rightarrow> 'w \<Rightarrow>
     tftp_error option outcome option \<times> 'h list \<times> 'w" where
  "get_file io host port ret file w =
     (case client_Get io (constructURL host port '''' file) w of
        (Inl err, w1) \<Rightarrow> (Some (Returned (Some err)), [], w1)
      | (Inr resp, w1) \<Rightarrow>
          (case os_OpenFile io file w1 of
             (Inl err, w2) \<Rightarrow> (Some (Returned None), [], w2)
           | (Inr lf, w2) \<Rightarrow>
               if localfile ret \<noteq> '''' \<and> length (remotefiles ret) = 1
               then (case os_OpenFile io (localfile ret) w2 of
                       (Inl err, w3) \<Rightarrow> (Some (Returned (Some err)), [lf], w3)
                     | (Inr lf2, w3) \<Rightarrow>
                         (case copy_data io resp lf2 w3 of (r, w4) \<Rightarrow> (r, [lf], w4)))
               else (case copy_data io resp lf w2 of (r, w4) \<Rightarrow> (r, [lf], w4))))"

text \<open>
  The loop: \<open>deferred\<close> is the stack of deferred \<open>Close\<close> calls, the last one first.
\<close>

fun get_loop ::
  "('w, 'r, 'h) collaborators \<Rightarrow> string \<Rightarrow> string \<Rightarrow> GetCmd \<Rightarrow> string list \<Rightarrow> 'h list \<Rightarrow> 'w \<Rightarrow>
     tftp_error option outcome \<times> 'h list \<times> 'w" where
  "get_loop io host port ret [] deferred w = (Returned None, deferred, w)"
| "get_loop io host port ret (file # files) deferred w =
     (case get_file io host port ret file w of
        (Some result, opened, w') \<Rightarrow> (result, opened @ deferred, w')
      | (None, opened, w') \<Rightarrow> get_loop io host port ret files (opened @ deferred) w')"

text \<open>
  \<open>executeGet\<close>: the loop, then the deferred \<open>Close\<close> calls in last-in-first-out order,
  which run on a return and on a panic alike.
\<close>

definition executeGet ::
  "('w, 'r, 'h) collaborators \<Rightarrow> string \<Rightarrow> string \<Rightarrow> string list \<Rightarrow> 'w \<Rightarrow>
     tftp_error option outcome \<times> 'w" where
  "executeGet io host port files w =
     (let ret = get_cmd files in
      case get_loop io host port ret (remotefiles ret) [] w of
        (result, deferred, w') \<Rightarrow> (result, fold (file_Close io) deferred w'))"

text \<open>
  A small world for running \<open>executeGet\<close>: the world is the log of the calls made, the
  server has every file with contents \<open>data\<close>, and \<open>os.OpenFile\<close> fails exactly on the
  names in \<open>locked\<close>.
\<close>

datatype call = Get string | OpenFile string | Size | Read nat | Write string string | Close string

definition logging_io :: "string list \<Rightarrow> string \<Rightarrow> (call list, string, string) collaborators" where
  "logging_io locked data =
     \<lparr>client_Get = (\<lambda>url w. (Inr url, w @ [Get url])),
      os_OpenFile = (\<lambda>name w.
         (if name \<in> set locked then Inl (CollaboratorError ''permission denied'') else Inr name,
          w @ [OpenFile name])),
      resp_Size = (\<lambda>r w. (Inr (int (length data)), w @ [Size])),
      resp_Read = (\<lambda>r n w. (Inr (int (min n (length data)), take n data), w @ [Read n])),
      file_Write = (\<lambda>h d w. (Inr (int (length d)), w @ [Write h d])),
      file_Close = (\<lambda>h w. w @ [Close h]),
      maxAlloc = 2 ^ 48\<rparr>"

section \<open>cmds/core/ip: the dispatcher\<close>

subsection \<open>The prefix matcher\<close>

datatype match_result = Matched string | NoMatch | AmbiguousPrefix

text \<open>
  Modelled from the spec: \<open>findPrefix\<close> is called by \<open>run\<close> but its body is not among
  the source files. Section 4.2 of the specification gives its rules, in order:
  (1) an exact match always wins; (2) otherwise, a non-empty token that is a prefix of
  exactly one candidate resolves to that candidate; (3) a token that is a prefix of
  two or more candidates, or of none, gives \<open>AmbiguousPrefix\<close> or \<open>NoMatch\<close>.
  Comparison is \<open>prefix\<close> on lists of bytes, so it is case-sensitive. The candidates
  are counted as a set (\<open>remdups\<close>). The specification says nothing of the empty token
  against a single candidate; rule (2) asks for a non-empty token, so the model
  answers \<open>NoMatch\<close> there.
\<close>

definition findPrefix :: "string \<Rightarrow> string list \<Rightarrow> match_result" where
  "findPrefix token candidates =
     (if token \<in> set candidates then Matched token
      else (case remdups (filter (prefix token) candidates) of
              [] \<Rightarrow> NoMatch
            | [c] \<Rightarrow> if token \<noteq> '''' then Matched c else NoMatch
            | _ \<Rightarrow> AmbiguousPrefix))"

subsection \<open>Parser state, errors and outcomes\<close>

text \<open>
  \<open>netlink.FAMILY_ALL\<close>, \<open>FAMILY_V4\<close> and \<open>FAMILY_V6\<close> are three distinct constants of
  the netlink library.
\<close>

datatype family = FAMILY_ALL | FAMILY_V4 | FAMILY_V6

text \<open>
  The package's global variables, and in \<open>world\<close> everything else a subcommand acts
  on (the writer \<open>out\<close>, the kernel's network configuration).
\<close>

record 'w ip_state =
  inet4 :: bool
  inet6 :: bool
  cursor :: int
  arg :: "string list"
  whatIWant :: "string list"
  family :: family
  world :: 'w

text \<open>
  Errors: the one \<open>usage\<close> builds, with the four values its message prints; the one
  \<open>run\<close> builds with \<open>fmt.Errorf("%v: %v", c, err)\<close>; and whatever else a subcommand
  returns, by its message.
\<close>

datatype ip_error =
    Usage (consumedTokens: "string list") (remainingTokens: "string list")
          (offendingToken: string) (expectedSet: "string list")
  | Prefixed match_result ip_error
  | CommandError string

text \<open>
  The lines \<open>log.Fatalf\<close> prints before it ends the process:
  \<open>"ip: args: %v, I got to arg %v, expected %v after that"\<close> with \<open>arg\<close>, \<open>cursor\<close> and
  \<open>whatIWant\<close>; \<open>"ip: %v"\<close> with a recovered error; \<open>"ip: unexpected panic value:
  %T(%v)"\<close>; \<open>"ip: %v"\<close> in \<open>main\<close> with the error \<open>run\<close> returned; and any line a
  subcommand ends the process with.
\<close>

datatype log_line =
    LogArgs "string list" int "string list"
  | LogPanicError string
  | LogUnexpectedPanic string string
  | LogError ip_error
  | LogOther string

text \<open>
  The tokens before the cursor and from the cursor on, for the line that prints the
  whole of \<open>arg\<close> and the position reached.
\<close>

fun tokensBefore :: "log_line \<Rightarrow> string list" where
  "tokensBefore (LogArgs args c want) = take (nat c) args"
| "tokensBefore _ = []"

fun tokensFrom :: "log_line \<Rightarrow> string list" where
  "tokensFrom (LogArgs args c want) = drop (nat c) args"
| "tokensFrom _ = []"

fun expectedAfter :: "log_line \<Rightarrow> string list" where
  "expectedAfter (LogArgs args c want) = want"
| "expectedAfter _ = []"

text \<open>How a call ends: it returns, it panics, or the process is ended by \<open>log.Fatalf\<close>.\<close>

datatype 'a ending = Return 'a | Panic panic_value | Fatal log_line

type_synonym 'w routine = "'w ip_state \<Rightarrow> ip_error option ending \<times> 'w ip_state"

text \<open>
  The subcommand routines \<open>address\<close>, \<open>link\<close>, \<open>route\<close>, \<open>neigh\<close>, \<open>monitor\<close>, \<open>tunnel\<close>,
  \<open>tcpMetrics\<close> and \<open>xfrm\<close> are not among the source files: \<open>run\<close> takes them as
  parameters. Each may read and change every global variable and the world.
\<close>

record 'w subcommands =
  address :: "'w routine"
  link :: "'w routine"
  route :: "'w routine"
  neigh :: "'w routine"
  monitor :: "'w routine"
  tunnel :: "'w routine"
  tcpMetrics :: "'w routine"
  xfrm :: "'w routine"

subsection \<open>Bounds checks of the Go runtime\<close>

text \<open>
  The messages of the runtime errors, up to the index and the length that follow them
  in brackets. \<open>strings_Contains\<close> is \<open>strings.Contains\<close>.
\<close>

definition index_out_of_range :: panic_value where
  "index_out_of_range = PanicError ''runtime error: index out of range''"

definition slice_bounds_out_of_range :: panic_value where
  "slice_bounds_out_of_range = PanicError ''runtime error: slice bounds out of range''"

primrec strings_Contains :: "string \<Rightarrow> string \<Rightarrow> bool" where
  "strings_Contains [] substr = (substr = [])"
| "strings_Contains (x # xs) substr = (prefix substr (x # xs) \<or> strings_Contains xs substr)"

text \<open>The messages the deferred function of \<open>run\<close> takes for a bounds violation.\<close>

definition bounds_message :: "string \<Rightarrow> bool" where
  "bounds_message msg \<longleftrightarrow>
     strings_Contains msg ''index out of range'' \<or> strings_Contains msg ''slice bounds out of range''"

text \<open>\<open>arg[cursor]\<close>.\<close>

definition arg_at_cursor :: "'w ip_state \<Rightarrow> panic_value + string" where
  "arg_at_cursor st =
     (if 0 \<le> cursor st \<and> cursor st < int (length (arg st))
      then Inr (arg st ! nat (cursor st))
      else Inl index_out_of_range)"

subsection \<open>usage, run and main\<close>

text \<open>
  \<open>usage\<close> evaluates \<open>arg[0:cursor]\<close>, \<open>arg[cursor:]\<close> and \<open>arg[cursor]\<close> in this order.
  The capacity of \<open>arg\<close> is its length (\<open>flag.Args()\<close> is a tail of \<open>os.Args\<close>), so the
  first panics unless \<open>0 \<le> cursor \<le> len(arg)\<close>, and the third panics when
  \<open>cursor = len(arg)\<close>.
\<close>

definition usage :: "'w ip_state \<Rightarrow> panic_value + ip_error" where
  "usage st =
     (if cursor st < 0 \<or> int (length (arg st)) < cursor st then Inl slice_bounds_out_of_range
      else if cursor st = int (length (arg st)) then Inl index_out_of_range
      else Inr (Usage (take (nat (cursor st)) (arg st)) (drop (nat (cursor st)) (arg st))
                      (arg st ! nat (cursor st)) (whatIWant st)))"

definition top_level :: "string list" where
  "top_level = [''address'', ''route'', ''link'', ''monitor'', ''neigh'', ''tunnel'',
                ''tcp_metrics'', ''tcpmetrics'', ''xfrm'']"

text \<open>The first lines of \<open>run\<close>, up to \<open>cursor = 0\<close>.\<close>

definition run_init :: "'w ip_state \<Rightarrow> 'w ip_state" where
  "run_init st =
     st\<lparr>family := (if inet6 st then FAMILY_V6 else if inet4 st then FAMILY_V4 else FAMILY_ALL),
        whatIWant := top_level,
        cursor := 0\<rparr>"

text \<open>The switch on \<open>c\<close>.\<close>

definition dispatch :: "'w subcommands \<Rightarrow> match_result \<Rightarrow> 'w routine" where
  "dispatch subs c st =
     (if c = Matched ''address'' then address subs st
      else if c = Matched ''link'' then link subs st
      else if c = Matched ''route'' then route subs st
      else if c = Matched ''neigh'' then neigh subs st
      else if c = Matched ''monitor'' then monitor subs st
      else if c = Matched ''tunnel'' then tunnel subs st
      else if c = Matched ''tcpmetrics'' \<or> c = Matched ''tcp_metrics'' then tcpMetrics subs st
      else if c = Matched ''xfrm'' then xfrm subs st
      else (case usage st of
              Inl pv \<Rightarrow> (Panic pv, st)
            | Inr err \<Rightarrow> (Return (Some err), st)))"

text \<open>
  The end of \<open>run\<close>: an error is returned as \<open>fmt.Errorf("%v: %v", c, err)\<close>, and nil as
  nil. A panic or an end of the process inside the switch never gets there.
\<close>

definition wrap_error ::
  "match_result \<Rightarrow> ip_error option ending \<times> 'w ip_state \<Rightarrow> ip_error option ending \<times> 'w ip_state" where
  "wrap_error c r =
     (case r of
        (Return (Some err), st) \<Rightarrow> (Return (Some (Prefixed c err)), st)
      | _ \<Rightarrow> r)"

text \<open>
  The body of \<open>run\<close> after the initialisation, without the deferred function. The
  matcher is the parameter \<open>fp\<close>. \<open>arg[cursor]\<close> is evaluated before the matcher is
  called.
\<close>

definition run_body ::
  "(string \<Rightarrow> string list \<Rightarrow> match_result) \<Rightarrow> 'w subcommands \<Rightarrow> 'w routine" where
  "run_body fp subs st =
     (case arg_at_cursor st of
        Inl pv \<Rightarrow> (Panic pv, st)
      | Inr token \<Rightarrow>
          (let c = fp token (whatIWant st) in wrap_error c (dispatch subs c st)))"

text \<open>
  The deferred function: \<open>recover()\<close> and the type switch on its value, with the
  globals as they are when it runs.
\<close>

definition recovered :: "ip_error option ending \<times> 'w ip_state \<Rightarrow> ip_error option ending \<times> 'w ip_state" where
  "recovered r =
     (case r of
        (Panic (PanicError msg), st) \<Rightarrow>
          if strings_Contains msg ''index out of range''
          then (Fatal (LogArgs (arg st) (cursor st) (whatIWant st)), st)
          else if strings_Contains msg ''slice bounds out of range''
          then (Fatal (LogArgs (arg st) (cursor st) (whatIWant st)), st)
          else (Fatal (LogPanicError msg), st)
      | (Panic (PanicOther ty v), st) \<Rightarrow> (Fatal (LogUnexpectedPanic ty v), st)
      | _ \<Rightarrow> r)"

definition run ::
  "(string \<Rightarrow> string list \<Rightarrow> match_result) \<Rightarrow> 'w subcommands \<Rightarrow> 'w routine" where
  "run fp subs st = recovered (run_body fp subs (run_init st))"

text \<open>
  \<open>main\<close>, from the values \<open>flag.Parse()\<close> leaves: whether \<open>-6\<close> and \<open>-4\<close> were set, and
  \<open>flag.Args()\<close>. The other globals start at their zero values.
\<close>

definition main ::
  "(string \<Rightarrow> string list \<Rightarrow> match_result) \<Rightarrow> 'w subcommands \<Rightarrow> bool \<Rightarrow> bool \<Rightarrow> string list \<Rightarrow> 'w \<Rightarrow>
     ip_error option ending \<times> 'w ip_state" where
  "main fp subs flag6 flag4 args w =
     (case run fp subs \<lparr>inet4 = flag4, inet6 = flag6, cursor = 0, arg = args, whatIWant = [],
                        family = FAMILY_ALL, world = w\<rparr> of
        (Return (Some err), st) \<Rightarrow> (Fatal (LogError err), st)
      | r \<Rightarrow> r)"

subsection \<open>The specification's binding of keywords to productions\<close>

text \<open>
  Each top-level keyword is bound to the routine of its name; \<open>tcp_metrics\<close> and
  \<open>tcpmetrics\<close> are both bound to the tcp-metrics routine.
\<close>

definition production_of :: "'w subcommands \<Rightarrow> string \<Rightarrow> 'w routine" where
  "production_of subs kw =
     (if kw = ''address'' then address subs
      else if kw = ''route'' then route subs
      else if kw = ''link'' then link subs
      else if kw = ''monitor'' then monitor subs
      else if kw = ''neigh'' then neigh subs
      else if kw = ''tunnel'' then tunnel subs
      else if kw = ''tcp_metrics'' then tcpMetrics subs
      else if kw = ''tcpmetrics'' then tcpMetrics subs
      else xfrm subs)"

subsection \<open>Sample routines\<close>

text \<open>
  Routines in the manner the source describes (advance the cursor, say what is wanted,
  read \<open>arg[cursor]\<close> without a bounds check), for running \<open>run\<close> on concrete
  arguments. The world is the list of lines written to \<open>out\<close>.
\<close>

definition sample_address :: "string list routine" where
  "sample_address st =
     (let st1 = st\<lparr>cursor := cursor st + 1, whatIWant := [''show'', ''add'', ''del'']\<rparr> in
      case arg_at_cursor st1 of
        Inl pv \<Rightarrow> (Panic pv, st1)
      | Inr token \<Rightarrow>
          if findPrefix token (whatIWant st1) = Matched ''show''
          then (Return None, st1\<lparr>world := world st1 @ [''lo: 127.0.0.1/8'']\<rparr>)
          else (case usage st1 of
                  Inl pv \<Rightarrow> (Panic pv, st1)
                | Inr err \<Rightarrow> (Return (Some err), st1)))"

definition sample_subcommands :: "string list subcommands" where
  "sample_subcommands =
     \<lparr>address = sample_address,
      link = (\<lambda>st. (Return None, st\<lparr>cursor := cursor st + 1, world := world st @ [''1: lo'']\<rparr>)),
      route = (\<lambda>st. (Return (Some (CommandError ''no such device'')), st\<lparr>cursor := cursor st + 1\<rparr>)),
      neigh = (\<lambda>st. (Panic (PanicOther ''string'' ''boom''), st)),
      monitor = (\<lambda>st. (Panic (PanicError ''operation not permitted''), st)),
      tunnel = (\<lambda>st. (Fatal (LogOther ''tunnel: not supported''), st)),
      tcpMetrics = (\<lambda>st. (Return None, st\<lparr>world := world st @ [''tcp metrics'']\<rparr>)),
      xfrm = (\<lambda>st. (Panic (PanicError ''xfrm: policy index out of range''), st))\<rparr>"

definition sample_state :: "bool \<Rightarrow> bool \<Rightarrow> string list \<Rightarrow> string list ip_state" where
  "sample_state flag6 flag4 args =
     \<lparr>inet4 = flag4, inet6 = flag6, cursor = 7, arg = args, whatIWant = [''stale''],
      family = FAMILY_V4, world = []\<rparr>"

section \<open>Theorems: pkg/tftp\<close>

lemma get_file_open_fails:
  assumes "client_Get io (constructURL host port '''' file) w = (Inr resp, w1)"
    and "os_OpenFile io file w1 = (Inl err, w2)"
  shows "get_file io host port ret file w = (Some (Returned None), [], w2)"
  using assms by (simp add: get_file_def)

lemma remotefiles_get_cmd_Cons:
  "\<exists>fs. remotefiles (get_cmd (file # files)) = file # fs"
  by (cases files rule: list.exhaust; cases "tl files") (auto simp: get_cmd_def)

lemma get_cmd_two_names:
  "get_cmd [remote, local] = \<lparr>remotefiles = [remote], localfile = local\<rparr>"
  by (simp add: get_cmd_def)

lemma get_file_second_open_fails:
  assumes "localfile ret \<noteq> ''''" and "length (remotefiles ret) = 1"
    and "client_Get io (constructURL host port '''' file) w = (Inr resp, w1)"
    and "os_OpenFile io file w1 = (Inr lf, w2)"
    and "os_OpenFile io (localfile ret) w2 = (Inl err, w3)"
  shows "get_file io host port ret file w = (Some (Returned (Some err)), [lf], w3)"
  using assms by (simp add: get_file_def)

text \<open>
  C9, as the code has it. In \<open>executeGet\<close>, when the download of a remote file has
  started (\<open>client.Get\<close> succeeded) and opening the local file of the same name as the
  remote file fails, the function returns nil instead of the open error, and nothing
  more is done: the loop is left in the world of the failed open, with no call for
  the rest of the files. This holds at any iteration of the loop and so for the first
  file of a request (first part). That file is the destination of the transfer unless
  the request has two names, a remote file and a local file: then the local file is
  opened next, it is the destination, and when opening it fails the open error is
  returned, after the deferred \<open>Close\<close> of the file opened first (second part).
\<close>

theorem executeGet_open_failure:
  "(client_Get io (constructURL host port '''' remote) w = (Inr resp, w1)
    \<and> os_OpenFile io remote w1 = (Inl err, w2)
    \<longrightarrow> get_loop io host port ret (remote # files) deferred w = (Returned None, deferred, w2)
      \<and> executeGet io host port (remote # files) w = (Returned None, w2))
 \<and> (local \<noteq> ''''
    \<and> client_Get io (constructURL host port '''' remote) w = (Inr resp, w1)
    \<and> os_OpenFile io remote w1 = (Inr lf, w2)
    \<and> os_OpenFile io local w2 = (Inl err, w3)
    \<longrightarrow> executeGet io host port [remote, local] w = (Returned (Some err), file_Close io lf w3))"
proof (intro conjI impI)
  assume h: "client_Get io (constructURL host port '''' remote) w = (Inr resp, w1)
    \<and> os_OpenFile io remote w1 = (Inl err, w2)"
  then have one: "\<And>r. get_file io host port r remote w = (Some (Returned None), [], w2)"
    by (simp add: get_file_open_fails)
  then show "get_loop io host port ret (remote # files) deferred w = (Returned None, deferred, w2)"
    by simp
  obtain fs where "remotefiles (get_cmd (remote # files)) = remote # fs"
    using remotefiles_get_cmd_Cons by blast
  then show "executeGet io host port (remote # files) w = (Returned None, w2)"
    by (simp add: executeGet_def Let_def one)
next
  assume h: "local \<noteq> ''''
    \<and> client_Get io (constructURL host port '''' remote) w = (Inr resp, w1)
    \<and> os_OpenFile io remote w1 = (Inr lf, w2)
    \<and> os_OpenFile io local w2 = (Inl err, w3)"
  then have "get_file io host port \<lparr>remotefiles = [remote], localfile = local\<rparr> remote w
           = (Some (Returned (Some err)), [lf], w3)"
    by (simp add: get_file_second_open_fails)
  then show "executeGet io host port [remote, local] w = (Returned (Some err), file_Close io lf w3)"
    by (simp add: executeGet_def Let_def get_cmd_two_names)
qed

theorem executeGet_open_failure_witness:
  "executeGet (logging_io [''a''] ''xy'') ''h'' ''69'' [''a'', ''b'', ''c''] []
     = (Returned None, [Get ''tftp://h:69/a'', OpenFile ''a''])
 \<and> executeGet (logging_io [''out''] ''xy'') ''h'' ''69'' [''a'', ''out''] []
     = (Returned (Some (CollaboratorError ''permission denied'')),
        [Get ''tftp://h:69/a'', OpenFile ''a'', OpenFile ''out'', Close ''a''])"
  using executeGet_open_failure
    [where io = "logging_io [''a''] ''xy''" and host = "''h''" and port = "''69''"
       and remote = "''a''" and w = "[]" and resp = "''tftp://h:69/a''"
       and ?w1.0 = "[Get ''tftp://h:69/a'']" and err = "CollaboratorError ''permission denied''"
       and ?w2.0 = "[Get ''tftp://h:69/a'', OpenFile ''a'']" and files = "[''b'', ''c'']"]
    executeGet_open_failure
    [where io = "logging_io [''out''] ''xy''" and host = "''h''" and port = "''69''"
       and remote = "''a''" and w = "[]" and resp = "''tftp://h:69/a''"
       and ?w1.0 = "[Get ''tftp://h:69/a'']" and local = "''out''" and lf = "''a''"
       and ?w2.0 = "[Get ''tftp://h:69/a'', OpenFile ''a'']"
       and err = "CollaboratorError ''permission denied''"
       and ?w3.0 = "[Get ''tftp://h:69/a'', OpenFile ''a'', OpenFile ''out'']"]
  by (simp add: logging_io_def constructURL_def)

text \<open>
  C9 as it is stated has \<open>executeGet\<close> return nil whenever opening the local
  destination file fails. For the request of the remote file "r" into the local file
  "l", with "l" not to be opened, the file "r" is opened first and with success, the
  open of the destination "l" fails, and what is returned is the open error, not nil.
\<close>

theorem executeGet_destination_open_counterexample:
  "executeGet (logging_io [''l''] ''xy'') ''h'' ''69'' [''r'', ''l''] []
     = (Returned (Some (CollaboratorError ''permission denied'')),
        [Get ''tftp://h:69/r'', OpenFile ''r'', OpenFile ''l'', Close ''r''])
 \<and> fst (executeGet (logging_io [''l''] ''xy'') ''h'' ''69'' [''r'', ''l''] []) \<noteq> Returned None"
proof -
  have "get_file (logging_io [''l''] ''xy'') ''h'' ''69'' \<lparr>remotefiles = [''r''], localfile = ''l''\<rparr> ''r'' []
      = (Some (Returned (Some (CollaboratorError ''permission denied''))), [''r''],
         [Get ''tftp://h:69/r'', OpenFile ''r'', OpenFile ''l''])"
    by (simp add: get_file_def logging_io_def constructURL_def)
  then have "executeGet (logging_io [''l''] ''xy'') ''h'' ''69'' [''r'', ''l''] []
     = (Returned (Some (CollaboratorError ''permission denied'')),
        fold (file_Close (logging_io [''l''] ''xy'')) [''r'']
          [Get ''tftp://h:69/r'', OpenFile ''r'', OpenFile ''l''])"
    by (simp add: executeGet_def Let_def get_cmd_two_names)
  then show ?thesis by (simp add: logging_io_def)
qed

text \<open>
  C10. \<open>validateMode\<close> returns \<open>ModeNetASCII\<close> for "ascii" and \<open>ModeOctet\<close> for "binary",
  both without an error; for every other string it returns \<open>ErrInvalidTransferMode\<close>;
  it returns an error if and only if the input is neither "ascii" nor "binary".
\<close>

theorem validateMode_cases:
  "validateMode ''ascii'' = (ModeNetASCII, None)
 \<and> validateMode ''binary'' = (ModeOctet, None)
 \<and> (mode \<noteq> ''ascii'' \<and> mode \<noteq> ''binary'' \<longrightarrow> snd (validateMode mode) = Some ErrInvalidTransferMode)
 \<and> (snd (validateMode mode) \<noteq> None \<longleftrightarrow> mode \<noteq> ''ascii'' \<and> mode \<noteq> ''binary'')"
  by (simp add: validateMode_def)

theorem validateMode_cases_witness:
  "snd (validateMode ''octet'') = Some ErrInvalidTransferMode
 \<and> snd (validateMode ''ASCII'') \<noteq> None
 \<and> validateMode ''binary'' = (''octet'', None)"
  using validateMode_cases [of "''octet''"] validateMode_cases [of "''ASCII''"]
  by (simp add: ModeOctet_def)

section \<open>Theorems: the prefix matcher\<close>

lemma distinct_singleton: "distinct xs \<Longrightarrow> set xs = {c} \<Longrightarrow> xs = [c]"
  by (cases xs; cases "tl xs") auto

lemma findPrefix_exact:
  "token \<in> set candidates \<Longrightarrow> findPrefix token candidates = Matched token"
  by (simp add: findPrefix_def)

lemma findPrefix_unique:
  assumes "token \<notin> set candidates" and "token \<noteq> ''''"
    and "{k \<in> set candidates. prefix token k} = {c}"
  shows "findPrefix token candidates = Matched c"
proof -
  have "set (remdups (filter (prefix token) candidates)) = {c}"
    using assms(3) by auto
  then have "remdups (filter (prefix token) candidates) = [c]"
    by (intro distinct_singleton) auto
  then show ?thesis using assms(1,2) by (simp add: findPrefix_def)
qed

lemma findPrefix_ambiguous:
  assumes "token \<notin> set candidates"
    and "2 \<le> card {k \<in> set candidates. prefix token k}"
  shows "findPrefix token candidates = AmbiguousPrefix"
proof -
  let ?ms = "remdups (filter (prefix token) candidates)"
  have "length ?ms = card {k \<in> set candidates. prefix token k}"
    by (simp add: length_remdups_card_conv conj_commute)
  then have "2 \<le> length ?ms"
    using assms(2) by simp
  then obtain a b rest where "?ms = a # b # rest"
    by (cases ?ms; cases "tl ?ms") auto
  then show ?thesis using assms(1) by (simp add: findPrefix_def)
qed

lemma findPrefix_none:
  assumes "{k \<in> set candidates. prefix token k} = {}"
  shows "findPrefix token candidates = NoMatch"
proof -
  have "token \<notin> set candidates" using assms by auto
  moreover have "filter (prefix token) candidates = []"
    using assms by (auto simp: filter_empty_conv)
  ultimately show ?thesis by (simp add: findPrefix_def)
qed

lemma findPrefix_Matched_only:
  assumes "findPrefix token candidates = Matched c"
  shows "(c = token \<and> token \<in> set candidates)
       \<or> (token \<notin> set candidates \<and> token \<noteq> '''' \<and> {k \<in> set candidates. prefix token k} = {c})"
proof (cases "token \<in> set candidates")
  case True
  then show ?thesis using assms by (simp add: findPrefix_def)
next
  case False
  then have "remdups (filter (prefix token) candidates) = [c] \<and> token \<noteq> ''''"
    using assms by (auto simp: findPrefix_def split: list.splits if_splits)
  then have "set (remdups (filter (prefix token) candidates)) = {c}" and "token \<noteq> ''''"
    by simp_all
  then show ?thesis using False by auto
qed

text \<open>
  C1. \<open>findPrefix\<close> applies its rules in order, for every token and every list of
  candidates: an exact match wins, whatever else the token is a prefix of; otherwise a
  non-empty token that is a prefix of exactly one candidate resolves to it; a token
  that is a prefix of two or more candidates gives \<open>AmbiguousPrefix\<close>, and one that is
  a prefix of none gives \<open>NoMatch\<close>. Nothing is ever picked arbitrarily: a result
  \<open>Matched c\<close> is the exact match or the one candidate the token is a prefix of.
  Matching is \<open>prefix\<close> on bytes, so it is case-sensitive.
\<close>

theorem findPrefix_rules:
  "(token \<in> set candidates \<longrightarrow> findPrefix token candidates = Matched token)
 \<and> (token \<notin> set candidates \<and> token \<noteq> '''' \<and> {k \<in> set candidates. prefix token k} = {c}
      \<longrightarrow> findPrefix token candidates = Matched c)
 \<and> (token \<notin> set candidates \<and> 2 \<le> card {k \<in> set candidates. prefix token k}
      \<longrightarrow> findPrefix token candidates = AmbiguousPrefix)
 \<and> ({k \<in> set candidates. prefix token k} = {} \<longrightarrow> findPrefix token candidates = NoMatch)
 \<and> (findPrefix token candidates = Matched c
      \<longrightarrow> (c = token \<and> token \<in> set candidates)
        \<or> (token \<notin> set candidates \<and> token \<noteq> '''' \<and> {k \<in> set candidates. prefix token k} = {c}))"
  using findPrefix_exact [of token candidates] findPrefix_unique [of token candidates c]
    findPrefix_ambiguous [of token candidates] findPrefix_none [of candidates token]
    findPrefix_Matched_only [of token candidates c]
  by blast

lemma prefixed_filter: "{k \<in> set xs. prefix t k} = set (filter (prefix t) xs)"
  by auto

lemma prefixed_by_a: "{k \<in> set top_level. prefix ''a'' k} = {''address''}"
  unfolding prefixed_filter by (simp add: top_level_def)

lemma prefixed_by_t: "{k \<in> set top_level. prefix ''t'' k} = {''tunnel'', ''tcp_metrics'', ''tcpmetrics''}"
  unfolding prefixed_filter by (simp add: top_level_def)

lemma prefixed_by_z: "{k \<in> set top_level. prefix ''z'' k} = {}"
  unfolding prefixed_filter by (simp add: top_level_def)

lemma prefixed_by_capital_A: "{k \<in> set top_level. prefix ''A'' k} = {}"
  unfolding prefixed_filter by (simp add: top_level_def)

theorem findPrefix_rules_witness:
  "findPrefix ''ab'' [''abc'', ''ab''] = Matched ''ab''
 \<and> findPrefix ''a'' top_level = Matched ''address''
 \<and> findPrefix ''t'' top_level = AmbiguousPrefix
 \<and> findPrefix ''z'' top_level = NoMatch
 \<and> findPrefix ''A'' top_level = NoMatch"
proof -
  have "findPrefix ''ab'' [''abc'', ''ab''] = Matched ''ab''"
    using findPrefix_rules [of "''ab''" "[''abc'', ''ab'']"] by simp
  moreover have "''a'' \<notin> set top_level" and "''t'' \<notin> set top_level"
    by (simp_all add: top_level_def)
  moreover have "2 \<le> card {''tunnel'', ''tcp_metrics'', ''tcpmetrics''}"
    by simp
  ultimately show ?thesis
    using findPrefix_rules [of "''a''" top_level "''address''"]
      findPrefix_rules [of "''t''" top_level] findPrefix_rules [of "''z''" top_level]
      findPrefix_rules [of "''A''" top_level]
    by (simp add: prefixed_by_a prefixed_by_t prefixed_by_z prefixed_by_capital_A)
qed

section \<open>Theorems: the dispatcher\<close>

lemma run_body_first_token:
  assumes "arg st = token # rest"
  shows "run_body fp subs (run_init st)
       = wrap_error (fp token top_level) (dispatch subs (fp token top_level) (run_init st))"
  using assms by (simp add: run_body_def arg_at_cursor_def run_init_def Let_def)

lemma dispatch_keyword:
  assumes "kw \<in> set top_level"
  shows "dispatch subs (Matched kw) st = production_of subs kw st"
  using assms by (auto simp: top_level_def dispatch_def production_of_def)

lemma dispatch_default:
  assumes "c \<notin> Matched ` set top_level"
  shows "dispatch subs c st
       = (case usage st of Inl pv \<Rightarrow> (Panic pv, st) | Inr err \<Rightarrow> (Return (Some err), st))"
  using assms by (simp add: top_level_def dispatch_def)

lemma unique_prefix_top_level:
  assumes "{k \<in> set top_level. prefix token k} = {kw}"
  shows "findPrefix token top_level = Matched kw" and "kw \<in> set top_level"
proof -
  have kw: "kw \<in> set top_level" "prefix token kw"
    using assms by auto
  show "kw \<in> set top_level" by (rule kw)
  have "token \<noteq> ''''"
  proof
    assume "token = ''''"
    then have "''address'' \<in> {kw}" and "''route'' \<in> {kw}"
      using assms by (auto simp: top_level_def)
    then have "''address'' = ''route''" by simp
    then show False by simp
  qed
  show "findPrefix token top_level = Matched kw"
  proof (cases "token \<in> set top_level")
    case True
    then have "token \<in> {kw}" using assms by auto
    then show ?thesis using True by (simp add: findPrefix_exact)
  next
    case False
    then show ?thesis using \<open>token \<noteq> ''''\<close> assms by (rule findPrefix_unique)
  qed
qed

lemma recovered_Return: "recovered (Return r, st) = (Return r, st)"
  by (simp add: recovered_def)

lemma recovered_Fatal: "recovered (Fatal line, st) = (Fatal line, st)"
  by (simp add: recovered_def)

lemma recovered_bounds:
  "bounds_message msg \<Longrightarrow>
     recovered (Panic (PanicError msg), st) = (Fatal (LogArgs (arg st) (cursor st) (whatIWant st)), st)"
  by (auto simp: recovered_def bounds_message_def)

lemma recovered_other_error:
  "\<not> bounds_message msg \<Longrightarrow> recovered (Panic (PanicError msg), st) = (Fatal (LogPanicError msg), st)"
  by (simp add: recovered_def bounds_message_def)

lemma recovered_other_value:
  "recovered (Panic (PanicOther ty v), st) = (Fatal (LogUnexpectedPanic ty v), st)"
  by (simp add: recovered_def)

lemma recovered_never_panics: "fst (recovered r) \<noteq> Panic pv"
proof (cases r)
  case (Pair e st)
  show ?thesis
  proof (cases e)
    case (Panic v)
    then show ?thesis using Pair
      by (cases v) (simp_all add: recovered_def)
  qed (simp_all add: Pair recovered_def)
qed

lemma wrap_error_Panic: "wrap_error c (Panic pv, st) = (Panic pv, st)"
  by (simp add: wrap_error_def)

lemma wrap_error_Some: "wrap_error c (Return (Some err), st) = (Return (Some (Prefixed c err)), st)"
  by (simp add: wrap_error_def)

lemma index_message_is_bounds: "bounds_message ''runtime error: index out of range''"
  by (simp add: bounds_message_def)

lemma slice_message_is_bounds: "bounds_message ''runtime error: slice bounds out of range''"
  by (simp add: bounds_message_def)

lemma sample_first_token:
  "arg (sample_state flag6 flag4 (token # rest)) = token # rest"
  by (simp add: sample_state_def)

lemma sample_run_init:
  "run_init (sample_state flag6 flag4 args)
     = \<lparr>inet4 = flag4, inet6 = flag6, cursor = 0, arg = args, whatIWant = top_level,
        family = (if flag6 then FAMILY_V6 else if flag4 then FAMILY_V4 else FAMILY_ALL),
        world = []\<rparr>"
  by (simp add: run_init_def sample_state_def)

text \<open>
  C2. A first token that is a prefix of exactly one top-level keyword, whatever its
  length, makes \<open>run\<close> call the routine bound to that keyword, on the state \<open>run\<close> has
  initialised; what \<open>run\<close> gives is what that routine gives, passed through the end of
  \<open>run\<close> and its deferred function. \<open>tcp_metrics\<close> and \<open>tcpmetrics\<close> are both bound to
  \<open>tcpMetrics\<close>.
\<close>

theorem run_dispatches_unique_prefix:
  assumes "arg st = token # rest"
    and "{k \<in> set top_level. prefix token k} = {kw}"
  shows "run findPrefix subs st
           = recovered (wrap_error (Matched kw) (production_of subs kw (run_init st)))
       \<and> production_of subs ''tcp_metrics'' = tcpMetrics subs
       \<and> production_of subs ''tcpmetrics'' = tcpMetrics subs"
proof -
  have "findPrefix token top_level = Matched kw" and "kw \<in> set top_level"
    using assms(2) by (rule unique_prefix_top_level)+
  then have "run findPrefix subs st
           = recovered (wrap_error (Matched kw) (production_of subs kw (run_init st)))"
    by (simp add: run_def run_body_first_token [OF assms(1)] dispatch_keyword)
  then show ?thesis by (simp add: production_of_def)
qed

lemma prefixed_by_l: "{k \<in> set top_level. prefix ''l'' k} = {''link''}"
  unfolding prefixed_filter by (simp add: top_level_def)

lemma prefixed_by_tcpm: "{k \<in> set top_level. prefix ''tcpm'' k} = {''tcpmetrics''}"
  unfolding prefixed_filter by (simp add: top_level_def)

theorem run_dispatches_unique_prefix_witness:
  "run findPrefix sample_subcommands (sample_state False False [''l''])
     = (Return None,
        \<lparr>inet4 = False, inet6 = False, cursor = 1, arg = [''l''], whatIWant = top_level,
         family = FAMILY_ALL, world = [''1: lo'']\<rparr>)
 \<and> run findPrefix sample_subcommands (sample_state False False [''tcpm''])
     = (Return None,
        \<lparr>inet4 = False, inet6 = False, cursor = 0, arg = [''tcpm''], whatIWant = top_level,
         family = FAMILY_ALL, world = [''tcp metrics'']\<rparr>)"
  using run_dispatches_unique_prefix
      [of "sample_state False False [''l'']" "''l''" "[]" "''link''" sample_subcommands,
       OF sample_first_token prefixed_by_l]
    run_dispatches_unique_prefix
      [of "sample_state False False [''tcpm'']" "''tcpm''" "[]" "''tcpmetrics''" sample_subcommands,
       OF sample_first_token prefixed_by_tcpm]
  by (simp add: sample_run_init production_of_def sample_subcommands_def wrap_error_def recovered_def)

lemma run_production:
  assumes "arg st = token # rest" and "fp token top_level = Matched kw" and "kw \<in> set top_level"
  shows "run fp subs st = recovered (wrap_error (Matched kw) (production_of subs kw (run_init st)))"
  using assms by (simp add: run_def run_body_first_token dispatch_keyword)

lemma sample_address_alone:
  "production_of sample_subcommands ''address'' (run_init (sample_state False False [''a'']))
     = (Panic (PanicError ''runtime error: index out of range''),
        \<lparr>inet4 = False, inet6 = False, cursor = 1, arg = [''a''],
         whatIWant = [''show'', ''add'', ''del''], family = FAMILY_ALL, world = []\<rparr>)"
  by (simp add: sample_run_init production_of_def sample_subcommands_def sample_address_def
      arg_at_cursor_def index_out_of_range_def)

lemma sample_neigh:
  "production_of sample_subcommands ''neigh'' (run_init (sample_state False False [''ne'']))
     = (Panic (PanicOther ''string'' ''boom''), run_init (sample_state False False [''ne'']))"
  by (simp add: production_of_def sample_subcommands_def)

lemma sample_monitor:
  "production_of sample_subcommands ''monitor'' (run_init (sample_state False False [''mon'']))
     = (Panic (PanicError ''operation not permitted''), run_init (sample_state False False [''mon'']))"
  by (simp add: production_of_def sample_subcommands_def)

lemma sample_route:
  "production_of sample_subcommands ''route'' (run_init (sample_state True False [''r'', ''show'']))
     = (Return (Some (CommandError ''no such device'')),
        \<lparr>inet4 = False, inet6 = True, cursor = 1, arg = [''r'', ''show''], whatIWant = top_level,
         family = FAMILY_V6, world = []\<rparr>)"
  by (simp add: sample_run_init production_of_def sample_subcommands_def)

lemma prefixed_by_ne: "{k \<in> set top_level. prefix ''ne'' k} = {''neigh''}"
  unfolding prefixed_filter by (simp add: top_level_def)

lemma prefixed_by_mon: "{k \<in> set top_level. prefix ''mon'' k} = {''monitor''}"
  unfolding prefixed_filter by (simp add: top_level_def)

lemma prefixed_by_r: "{k \<in> set top_level. prefix ''r'' k} = {''route''}"
  unfolding prefixed_filter by (simp add: top_level_def)

lemma sample_xfrm:
  "production_of sample_subcommands ''xfrm'' (run_init (sample_state False False [''x'']))
     = (Panic (PanicError ''xfrm: policy index out of range''),
        run_init (sample_state False False [''x'']))"
  by (simp add: production_of_def sample_subcommands_def)

lemma prefixed_by_x: "{k \<in> set top_level. prefix ''x'' k} = {''xfrm''}"
  unfolding prefixed_filter by (simp add: top_level_def)

lemma xfrm_message_is_bounds: "bounds_message ''xfrm: policy index out of range''"
  by (simp add: bounds_message_def)

lemma not_a_bounds_message: "\<not> bounds_message ''operation not permitted''"
  by (simp add: bounds_message_def)

text \<open>
  C3, as the code has it. No panic leaves \<open>run\<close>: whatever the matcher, the routines
  and the arguments, \<open>run\<close> does not end in a panic. When the routine of the matched
  keyword panics in a state \<open>st'\<close>, the one deferred function ends the process with
  one line, of three kinds. For an error whose message says "index out of range" or
  "slice bounds out of range" (what an access to \<open>arg\<close> beyond its bounds raises), the
  line gives the whole of \<open>arg\<close>, the position \<open>cursor\<close> reached and \<open>whatIWant\<close>, all as
  they are in \<open>st'\<close>: the tokens before that position are the ones consumed, the tokens
  from it on are the ones left, and \<open>whatIWant\<close> is what was expected at the failure.
  Any other error is printed with its own message, as it is. A panic value that is
  not an error is not printed as a message of its own: the line says "unexpected
  panic value" and gives the value's type and text.
\<close>

theorem run_recovers_every_panic:
  "(\<forall>pv. fst (run fp subs st) \<noteq> Panic pv)
 \<and> (arg st = token # rest \<and> fp token top_level = Matched kw \<and> kw \<in> set top_level
    \<and> production_of subs kw (run_init st) = (Panic raised, st')
    \<longrightarrow> (\<forall>msg. raised = PanicError msg \<and> bounds_message msg \<longrightarrow>
            (\<exists>line. run fp subs st = (Fatal line, st')
               \<and> line = LogArgs (arg st') (cursor st') (whatIWant st')
               \<and> tokensBefore line = take (nat (cursor st')) (arg st')
               \<and> tokensFrom line = drop (nat (cursor st')) (arg st')
               \<and> expectedAfter line = whatIWant st'))
      \<and> (\<forall>msg. raised = PanicError msg \<and> \<not> bounds_message msg \<longrightarrow>
            run fp subs st = (Fatal (LogPanicError msg), st'))
      \<and> (\<forall>ty v. raised = PanicOther ty v \<longrightarrow>
            run fp subs st = (Fatal (LogUnexpectedPanic ty v), st')))"
proof (intro conjI impI allI)
  fix pv
  show "fst (run fp subs st) \<noteq> Panic pv"
    unfolding run_def by (rule recovered_never_panics)
next
  fix msg
  assume called: "arg st = token # rest \<and> fp token top_level = Matched kw \<and> kw \<in> set top_level
    \<and> production_of subs kw (run_init st) = (Panic raised, st')"
    and "raised = PanicError msg \<and> bounds_message msg"
  then have "run fp subs st = (Fatal (LogArgs (arg st') (cursor st') (whatIWant st')), st')"
    by (simp add: run_production [of st token rest fp kw] wrap_error_Panic recovered_bounds)
  then show "\<exists>line. run fp subs st = (Fatal line, st')
               \<and> line = LogArgs (arg st') (cursor st') (whatIWant st')
               \<and> tokensBefore line = take (nat (cursor st')) (arg st')
               \<and> tokensFrom line = drop (nat (cursor st')) (arg st')
               \<and> expectedAfter line = whatIWant st'"
    by simp
next
  fix msg
  assume "arg st = token # rest \<and> fp token top_level = Matched kw \<and> kw \<in> set top_level
    \<and> production_of subs kw (run_init st) = (Panic raised, st')"
    and "raised = PanicError msg \<and> \<not> bounds_message msg"
  then show "run fp subs st = (Fatal (LogPanicError msg), st')"
    by (simp add: run_production [of st token rest fp kw] wrap_error_Panic recovered_other_error)
next
  fix ty v
  assume "arg st = token # rest \<and> fp token top_level = Matched kw \<and> kw \<in> set top_level
    \<and> production_of subs kw (run_init st) = (Panic raised, st')"
    and "raised = PanicOther ty v"
  then show "run fp subs st = (Fatal (LogUnexpectedPanic ty v), st')"
    by (simp add: run_production [of st token rest fp kw] wrap_error_Panic recovered_other_value)
qed

theorem run_recovers_every_panic_witness:
  "run findPrefix sample_subcommands (sample_state False False [''a''])
     = (Fatal (LogArgs [''a''] 1 [''show'', ''add'', ''del'']),
        \<lparr>inet4 = False, inet6 = False, cursor = 1, arg = [''a''],
         whatIWant = [''show'', ''add'', ''del''], family = FAMILY_ALL, world = []\<rparr>)
 \<and> tokensBefore (LogArgs [''a''] 1 [''show'', ''add'', ''del'']) = [''a'']
 \<and> tokensFrom (LogArgs [''a''] 1 [''show'', ''add'', ''del'']) = []
 \<and> fst (run findPrefix sample_subcommands (sample_state False False [''mon'']))
     = Fatal (LogPanicError ''operation not permitted'')
 \<and> fst (run findPrefix sample_subcommands (sample_state False False [''ne'']))
     = Fatal (LogUnexpectedPanic ''string'' ''boom'')"
proof -
  have a: "findPrefix ''a'' top_level = Matched ''address''" "''address'' \<in> set top_level"
    using prefixed_by_a by (rule unique_prefix_top_level)+
  have mon: "findPrefix ''mon'' top_level = Matched ''monitor''" "''monitor'' \<in> set top_level"
    using prefixed_by_mon by (rule unique_prefix_top_level)+
  have ne: "findPrefix ''ne'' top_level = Matched ''neigh''" "''neigh'' \<in> set top_level"
    using prefixed_by_ne by (rule unique_prefix_top_level)+
  show ?thesis
    using run_recovers_every_panic
        [of findPrefix sample_subcommands "sample_state False False [''a'']" "''a''" "[]"
            "''address''" "PanicError ''runtime error: index out of range''"
            "\<lparr>inet4 = False, inet6 = False, cursor = 1, arg = [''a''],
              whatIWant = [''show'', ''add'', ''del''], family = FAMILY_ALL, world = []\<rparr>"]
      run_recovers_every_panic
        [of findPrefix sample_subcommands "sample_state False False [''mon'']" "''mon''" "[]"
            "''monitor''" "PanicError ''operation not permitted''"
            "run_init (sample_state False False [''mon''])"]
      run_recovers_every_panic
        [of findPrefix sample_subcommands "sample_state False False [''ne'']" "''ne''" "[]"
            "''neigh''" "PanicOther ''string'' ''boom''"
            "run_init (sample_state False False [''ne''])"]
    by (simp add: a mon ne sample_first_token sample_address_alone sample_monitor sample_neigh
        index_message_is_bounds not_a_bounds_message)
qed

text \<open>
  C3 as it is stated asks that every failure other than an out-of-bounds access to
  the tokens surface with its own message, unmodified, which is the line \<open>"ip: %v"\<close>
  of the message. Two routines of the sample show that the deferred function does
  otherwise. \<open>neigh\<close>, reached by the token "ne", panics with the string "boom": the
  type switch takes its default branch, and the line is
  \<open>"ip: unexpected panic value: string(boom)"\<close>. \<open>xfrm\<close>, reached by the token "x",
  reads no token and panics with an error of its own, whose message happens to hold
  "index out of range": \<open>strings.Contains\<close> takes it for a bounds violation, and the
  line gives \<open>arg\<close>, \<open>cursor\<close> and \<open>whatIWant\<close> instead of the message.
\<close>

theorem run_other_failure_counterexample:
  "production_of sample_subcommands ''neigh'' (run_init (sample_state False False [''ne'']))
     = (Panic (PanicOther ''string'' ''boom''), run_init (sample_state False False [''ne'']))
 \<and> fst (run findPrefix sample_subcommands (sample_state False False [''ne'']))
     = Fatal (LogUnexpectedPanic ''string'' ''boom'')
 \<and> fst (run findPrefix sample_subcommands (sample_state False False [''ne'']))
     \<noteq> Fatal (LogPanicError ''boom'')
 \<and> production_of sample_subcommands ''xfrm'' (run_init (sample_state False False [''x'']))
     = (Panic (PanicError ''xfrm: policy index out of range''),
        run_init (sample_state False False [''x'']))
 \<and> fst (run findPrefix sample_subcommands (sample_state False False [''x'']))
     = Fatal (LogArgs [''x''] 0 top_level)
 \<and> fst (run findPrefix sample_subcommands (sample_state False False [''x'']))
     \<noteq> Fatal (LogPanicError ''xfrm: policy index out of range'')"
proof -
  have "findPrefix ''ne'' top_level = Matched ''neigh''" and "''neigh'' \<in> set top_level"
    using prefixed_by_ne by (rule unique_prefix_top_level)+
  then have ne: "run findPrefix sample_subcommands (sample_state False False [''ne''])
           = (Fatal (LogUnexpectedPanic ''string'' ''boom''), run_init (sample_state False False [''ne'']))"
    using run_production [of "sample_state False False [''ne'']" "''ne''" "[]" findPrefix "''neigh''"
        sample_subcommands]
    by (simp add: sample_first_token sample_neigh wrap_error_Panic recovered_other_value)
  have "findPrefix ''x'' top_level = Matched ''xfrm''" and "''xfrm'' \<in> set top_level"
    using prefixed_by_x by (rule unique_prefix_top_level)+
  then have "run findPrefix sample_subcommands (sample_state False False [''x''])
           = recovered (Panic (PanicError ''xfrm: policy index out of range''),
                        run_init (sample_state False False [''x'']))"
    using run_production [of "sample_state False False [''x'']" "''x''" "[]" findPrefix "''xfrm''"
        sample_subcommands]
    by (simp add: sample_first_token sample_xfrm wrap_error_Panic)
  then have x: "run findPrefix sample_subcommands (sample_state False False [''x''])
           = (Fatal (LogArgs [''x''] 0 top_level), run_init (sample_state False False [''x'']))"
    by (simp add: recovered_bounds xfrm_message_is_bounds sample_run_init)
  show ?thesis
    by (simp add: ne x sample_neigh sample_xfrm)
qed



text \<open>
  C5. With no token at all, \<open>run\<close> fails at \<open>arg[cursor]\<close> and the process ends with
  the line that gives the empty \<open>arg\<close>, the position 0 and, as what was expected,
  the whole top-level keyword list; so does \<open>main\<close>.
\<close>

theorem run_without_tokens:
  assumes "arg st = []"
  shows "run fp subs st = (Fatal (LogArgs [] 0 top_level), run_init st)
       \<and> expectedAfter (LogArgs [] 0 top_level)
           = [''address'', ''route'', ''link'', ''monitor'', ''neigh'', ''tunnel'',
              ''tcp_metrics'', ''tcpmetrics'', ''xfrm'']
       \<and> fst (main fp subs flag6 flag4 [] w) = Fatal (LogArgs [] 0 top_level)"
proof -
  have empty: "\<And>s :: 'a ip_state. arg s = [] \<Longrightarrow>
      run fp subs s = (Fatal (LogArgs [] 0 top_level), run_init s)"
  proof -
    fix s :: "'a ip_state"
    assume "arg s = []"
    then have "run_body fp subs (run_init s) = (Panic index_out_of_range, run_init s)"
      by (simp add: run_body_def arg_at_cursor_def run_init_def)
    then have "run fp subs s
        = (Fatal (LogArgs (arg (run_init s)) (cursor (run_init s)) (whatIWant (run_init s))), run_init s)"
      by (simp add: run_def index_out_of_range_def recovered_bounds index_message_is_bounds)
    then show "run fp subs s = (Fatal (LogArgs [] 0 top_level), run_init s)"
      using \<open>arg s = []\<close> by (simp add: run_init_def)
  qed
  have "fst (main fp subs flag6 flag4 [] w) = Fatal (LogArgs [] 0 top_level)"
    by (simp add: main_def empty)
  then show ?thesis using empty [OF assms] by (simp add: top_level_def)
qed

theorem run_without_tokens_witness:
  "run findPrefix sample_subcommands (sample_state False True [])
     = (Fatal (LogArgs [] 0 top_level),
        \<lparr>inet4 = True, inet6 = False, cursor = 0, arg = [], whatIWant = top_level,
         family = FAMILY_V4, world = []\<rparr>)"
proof -
  have "arg (sample_state False True []) = []"
    by (simp add: sample_state_def)
  from run_without_tokens [OF this, of findPrefix sample_subcommands]
  show ?thesis by (simp add: sample_run_init)
qed

text \<open>
  C6. The error \<open>usage\<close> builds, wherever the cursor points at a token, holds exactly
  the tokens before the cursor, the tokens from the cursor on, the token at the cursor
  and \<open>whatIWant\<close> as it is then. At the top level, a first token that the matcher
  resolves to none of the keywords makes \<open>run\<close> return that error: nothing consumed,
  all the arguments left, the first token not understood, the top-level keywords
  expected.
\<close>

theorem usage_diagnostic:
  "(0 \<le> cursor st \<and> cursor st < int (length (arg st)) \<longrightarrow>
      usage st = Inr (Usage (take (nat (cursor st)) (arg st)) (drop (nat (cursor st)) (arg st))
                            (arg st ! nat (cursor st)) (whatIWant st)))
 \<and> (arg st = token # rest \<and> fp token top_level \<notin> Matched ` set top_level \<longrightarrow>
      run fp subs st
        = (Return (Some (Prefixed (fp token top_level) (Usage [] (token # rest) token top_level))),
           run_init st))"
proof (intro conjI impI)
  assume "0 \<le> cursor st \<and> cursor st < int (length (arg st))"
  then show "usage st = Inr (Usage (take (nat (cursor st)) (arg st)) (drop (nat (cursor st)) (arg st))
                            (arg st ! nat (cursor st)) (whatIWant st))"
    by (simp add: usage_def)
next
  assume h: "arg st = token # rest \<and> fp token top_level \<notin> Matched ` set top_level"
  then have "usage (run_init st) = Inr (Usage [] (token # rest) token top_level)"
    by (simp add: usage_def run_init_def)
  with h show "run fp subs st
        = (Return (Some (Prefixed (fp token top_level) (Usage [] (token # rest) token top_level))),
           run_init st)"
    by (simp add: run_def run_body_first_token [of st token rest] dispatch_default
        wrap_error_Some recovered_Return)
qed

lemma prefixed_by_zz: "{k \<in> set top_level. prefix ''zz'' k} = {}"
  unfolding prefixed_filter by (simp add: top_level_def)

lemma sample_not_understood: "findPrefix ''zz'' top_level = NoMatch"
  using prefixed_by_zz by (rule findPrefix_none)

lemma NoMatch_not_keyword: "NoMatch \<notin> Matched ` set top_level"
  by auto

theorem usage_diagnostic_witness:
  "usage \<lparr>inet4 = False, inet6 = False, cursor = 1, arg = [''link'', ''xyz'', ''up''],
          whatIWant = [''show'', ''set''], family = FAMILY_ALL, world = ()\<rparr>
     = Inr (Usage [''link''] [''xyz'', ''up''] ''xyz'' [''show'', ''set''])
 \<and> fst (run findPrefix sample_subcommands (sample_state False False [''zz'', ''y'']))
     = Return (Some (Prefixed NoMatch (Usage [] [''zz'', ''y''] ''zz'' top_level)))"
  using usage_diagnostic
      [of "\<lparr>inet4 = False, inet6 = False, cursor = 1, arg = [''link'', ''xyz'', ''up''],
            whatIWant = [''show'', ''set''], family = FAMILY_ALL, world = ()\<rparr>"]
    usage_diagnostic
      [of "sample_state False False [''zz'', ''y'']" "''zz''" "[''y'']" findPrefix sample_subcommands]
  by (simp add: sample_first_token sample_not_understood NoMatch_not_keyword)

text \<open>
  C7. An error the routine of the matched keyword returns is returned by \<open>run\<close> as it
  is, under the keyword \<open>c\<close> the matcher resolved the first token to (the full name,
  also when the token was an abbreviation), and in the state the routine left.
\<close>

theorem run_prefixes_subcommand_error:
  assumes "arg st = token # rest" and "fp token top_level = Matched kw" and "kw \<in> set top_level"
    and "production_of subs kw (run_init st) = (Return (Some err), st')"
  shows "run fp subs st = (Return (Some (Prefixed (Matched kw) err)), st')"
  using assms
  by (simp add: run_production [of st token rest fp kw] wrap_error_Some recovered_Return)

theorem run_prefixes_subcommand_error_witness:
  "run findPrefix sample_subcommands (sample_state True False [''r'', ''show''])
     = (Return (Some (Prefixed (Matched ''route'') (CommandError ''no such device''))),
        \<lparr>inet4 = False, inet6 = True, cursor = 1, arg = [''r'', ''show''], whatIWant = top_level,
         family = FAMILY_V6, world = []\<rparr>)"
proof -
  have r: "findPrefix ''r'' top_level = Matched ''route''" "''route'' \<in> set top_level"
    using prefixed_by_r by (rule unique_prefix_top_level)+
  show ?thesis
    using run_prefixes_subcommand_error
      [of "sample_state True False [''r'', ''show'']" "''r''" "[''show'']" findPrefix "''route''"
          sample_subcommands "CommandError ''no such device''"
          "\<lparr>inet4 = False, inet6 = True, cursor = 1, arg = [''r'', ''show''], whatIWant = top_level,
            family = FAMILY_V6, world = []\<rparr>"]
    by (simp add: sample_first_token r sample_route)
qed

end
